theory Spec2Isabelle
  imports Main
begin

section \<open>Go values used by the package\<close>

text \<open>
  A byte slice holding JSON text is a \<open>string\<close> (a list of 8-bit characters).
  A Go pointer \<open>*T\<close> is an \<open>'a option\<close>: \<open>None\<close> is \<open>nil\<close>, \<open>Some x\<close> points at a
  cell holding \<open>x\<close>. A Go \<open>error\<close> result is an \<open>'e option\<close>: \<open>None\<close> is the \<open>nil\<close> error.
  Go has no generic zero literal in HOL, so the zero value of the type parameter \<open>T\<close>
  (\<open>var zero T\<close>) is passed to every function that needs it, as the argument \<open>zero\<close>.
\<close>

type_synonym bytes = string

text \<open>
  A Go slice is either \<open>nil\<close> or a (possibly empty) sequence of elements; the two differ
  for \<open>encoding/json\<close>, so both are kept. Capacity is not modelled.
\<close>

datatype 'a slice = Nil_slice | Slice "'a list"

fun elems :: "'a slice \<Rightarrow> 'a list" where
  "elems Nil_slice = []"
| "elems (Slice xs) = xs"

definition len :: "'a slice \<Rightarrow> nat" where
  "len s = length (elems s)"

text \<open>\<open>make([]T, n)\<close>: a non-nil slice of \<open>n\<close> zero values.\<close>

definition make_slice :: "'a \<Rightarrow> nat \<Rightarrow> 'a slice" where
  "make_slice zero n = Slice (replicate n zero)"

text \<open>
  \<open>append(v, t...)\<close>: appending nothing to a nil slice leaves it nil; every other
  result is a non-nil slice holding the elements of \<open>v\<close> followed by those of \<open>t\<close>.
\<close>

definition append_slice :: "'a slice \<Rightarrow> 'a slice \<Rightarrow> 'a slice" where
  "append_slice v t =
     (case v of
        Nil_slice \<Rightarrow> (if elems t = [] then Nil_slice else Slice (elems t))
      | Slice xs \<Rightarrow> Slice (xs @ elems t))"

section \<open>Option (src/opt.go)\<close>

text \<open>
  \<open>type Option[T any] struct { some bool; v T }\<close>. The field \<open>v\<close> is called \<open>val\<close> here.
\<close>

record 'a Option =
  some :: bool
  val :: 'a

definition Some_opt :: "'a \<Rightarrow> 'a Option" where
  "Some_opt x = \<lparr>some = True, val = x\<rparr>"

text \<open>\<open>None[T]()\<close> returns \<open>Option[T]{}\<close>, the zero value of the struct.\<close>

definition None_opt :: "'a \<Rightarrow> 'a Option" where
  "None_opt zero = \<lparr>some = False, val = zero\<rparr>"

definition Option_IsSome :: "'a Option \<Rightarrow> bool" where
  "Option_IsSome o' = some o'"

definition Option_IsNone :: "'a Option \<Rightarrow> bool" where
  "Option_IsNone o' = (\<not> Option_IsSome o')"

definition Option_IsZero :: "'a Option \<Rightarrow> bool" where
  "Option_IsZero o' = Option_IsNone o'"

text \<open>\<open>Value\<close> returns the field whatever the flag says.\<close>

definition Option_Value :: "'a Option \<Rightarrow> 'a" where
  "Option_Value o' = val o'"

text \<open>
  Modelled from the spec: \<open>Option.Get\<close>, which src/und.go calls (\<open>u.opt.Get()\<close>), is not
  in src/opt.go; the spec gives one accessor \<open>value() -> T\<close> that "returns the held value
  if Some; returns T's zero/default value if None", which is what \<open>Value\<close> does on every
  option built by the constructors.
\<close>

definition Option_Get :: "'a Option \<Rightarrow> 'a" where
  "Option_Get o' = Option_Value o'"

definition Option_Pointer :: "'a Option \<Rightarrow> 'a option" where
  "Option_Pointer o' = (if Option_IsNone o' then None else Some (val o'))"

text \<open>\<open>MapOption\<close> and the method \<open>Map\<close>, which calls it with \<open>U = T\<close>.\<close>

definition MapOption :: "'a Option \<Rightarrow> ('a \<Rightarrow> 'b) \<Rightarrow> 'b \<Rightarrow> 'b Option" where
  "MapOption o' f zeroU =
     (if Option_IsSome o' then Some_opt (f (Option_Value o')) else None_opt zeroU)"

definition Option_Map :: "'a Option \<Rightarrow> ('a \<Rightarrow> 'a) \<Rightarrow> 'a \<Rightarrow> 'a Option" where
  "Option_Map o' f zero = MapOption o' f zero"

section \<open>Und (src/und.go)\<close>

text \<open>\<open>type Und[T any] struct { opt option.Option[option.Option[T]] }\<close>\<close>

record 'a Und =
  opt :: "'a Option Option"

definition Defined :: "'a \<Rightarrow> 'a Und" where
  "Defined t = \<lparr>opt = Some_opt (Some_opt t)\<rparr>"

definition Null :: "'a \<Rightarrow> 'a Und" where
  "Null zero = \<lparr>opt = Some_opt (None_opt zero)\<rparr>"

text \<open>\<open>Undefined\<close> returns \<open>Und[T]{}\<close>, the zero value: both levels are zero options.\<close>

definition Undefined :: "'a \<Rightarrow> 'a Und" where
  "Undefined zero = \<lparr>opt = None_opt (None_opt zero)\<rparr>"

definition FromPointer :: "'a \<Rightarrow> 'a option \<Rightarrow> 'a Und" where
  "FromPointer zero p = (case p of None \<Rightarrow> Undefined zero | Some x \<Rightarrow> Defined x)"

definition FromOption :: "'a Option Option \<Rightarrow> 'a Und" where
  "FromOption oo = \<lparr>opt = oo\<rparr>"

definition Und_IsUndefined :: "'a Und \<Rightarrow> bool" where
  "Und_IsUndefined u = Option_IsNone (opt u)"

definition Und_IsNull :: "'a Und \<Rightarrow> bool" where
  "Und_IsNull u = (Option_IsSome (opt u) \<and> Option_IsNone (Option_Get (opt u)))"

definition Und_IsDefined :: "'a Und \<Rightarrow> bool" where
  "Und_IsDefined u = (Option_IsSome (opt u) \<and> Option_IsSome (Option_Get (opt u)))"

definition Und_IsZero :: "'a Und \<Rightarrow> bool" where
  "Und_IsZero u = Und_IsUndefined u"

definition Und_Get :: "'a \<Rightarrow> 'a Und \<Rightarrow> 'a" where
  "Und_Get zero u = (if Und_IsDefined u then Option_Get (Option_Get (opt u)) else zero)"

definition Und_Pointer :: "'a Und \<Rightarrow> 'a option" where
  "Und_Pointer u = (if \<not> Und_IsDefined u then None else Option_Pointer (Option_Get (opt u)))"

definition Und_Unwrap :: "'a Und \<Rightarrow> 'a Option Option" where
  "Und_Unwrap u = opt u"

definition Und_Map :: "'a Und \<Rightarrow> ('a Option Option \<Rightarrow> 'a Option Option) \<Rightarrow> 'a Und" where
  "Und_Map u f = \<lparr>opt = f (opt u)\<rparr>"

text \<open>The number of the three state predicates that hold of a value.\<close>

definition states_true :: "'a Und \<Rightarrow> nat" where
  "states_true u =
     length (filter (\<lambda>b. b) [Und_IsUndefined u, Und_IsNull u, Und_IsDefined u])"


section \<open>The external JSON and XML library\<close>

text \<open>
  \<open>encoding/json\<close> and \<open>encoding/xml\<close> are not part of the package. What they do on a
  value of the type parameter \<open>T\<close> is an argument of every function that calls them:

  \<^item> \<open>marshal v\<close> is \<open>json.Marshal(v)\<close> for \<open>v\<close> of type \<open>T\<close>: the encoding, or an error;
  \<^item> \<open>unmarshal data x\<close> is \<open>json.Unmarshal(data, &x)\<close> for \<open>x\<close> of type \<open>T\<close>: the error
    (\<open>None\<close> is \<open>nil\<close>) and the value the target holds afterwards (the library may have
    written part of the input into the target when it reports an error);
  \<^item> \<open>valid data\<close> is the decoder's syntax check of the whole input and, when it passes,
    the text of the value without the surrounding white space, which is what the
    decoder hands to a target's \<open>UnmarshalJSON\<close> method;
  \<^item> \<open>array data\<close> is the decoder's reading of the input for a slice target: an error
    (a syntax error, or a type error when the value is no array), \<open>None\<close> for the
    literal null, or the texts of the array's elements in order.

  What the library does with a target that has its own \<open>MarshalJSON\<close> or
  \<open>UnmarshalJSON\<close> method, and with a slice of such targets, is written out below: it
  calls the method (for each element in turn, stopping at the first error); a nil
  slice encodes as the literal null, any other slice as its elements' encodings
  between brackets, separated by commas.
\<close>

type_synonym ('a, 'e) marshaler = "'a \<Rightarrow> 'e + bytes"
type_synonym ('a, 'e) unmarshaler = "bytes \<Rightarrow> 'a \<Rightarrow> 'e option \<times> 'a"
type_synonym 'e validator = "bytes \<Rightarrow> 'e + bytes"
type_synonym 'e array_scanner = "bytes \<Rightarrow> 'e + bytes list option"

section \<open>Option: equality and JSON (src/opt.go)\<close>

text \<open>
  \<open>Equal\<close> and \<open>equal\<close>. A type assertion \<open>any(t).(Equality[T])\<close> depends on the dynamic
  type of \<open>t\<close>: \<open>assertT t\<close> is its result, \<open>None\<close> when the assertion fails and otherwise
  the method \<open>eq.Equal\<close> bound to \<open>t\<close>; \<open>assertPtr t\<close> is the same for \<open>any(&t)\<close>. The
  comparison \<open>any(t) == any(u)\<close> is \<open>eqop t u\<close>; it panics on an uncomparable dynamic
  type, and so may a method, so both return a panic or a truth value.
\<close>

datatype go_panic = Uncomparable

type_synonym 'a equality = "'a \<Rightarrow> ('a \<Rightarrow> go_panic + bool) option"

definition equal_go ::
  "'a equality \<Rightarrow> 'a equality \<Rightarrow> ('a \<Rightarrow> 'a \<Rightarrow> go_panic + bool) \<Rightarrow> 'a \<Rightarrow> 'a \<Rightarrow> go_panic + bool" where
  "equal_go assertT assertPtr eqop t u =
     (case assertT t of
        Some eq \<Rightarrow> eq u
      | None \<Rightarrow>
          (case assertPtr t of
             Some eq \<Rightarrow> eq u
           | None \<Rightarrow> eqop t u))"

definition Option_Equal ::
  "'a equality \<Rightarrow> 'a equality \<Rightarrow> ('a \<Rightarrow> 'a \<Rightarrow> go_panic + bool) \<Rightarrow>
   'a Option \<Rightarrow> 'a Option \<Rightarrow> go_panic + bool" where
  "Option_Equal assertT assertPtr eqop o' other =
     (if \<not> some o' \<or> \<not> some other then Inr (some o' = some other)
      else equal_go assertT assertPtr eqop (val o') (val other))"

definition Option_MarshalJSON :: "('a, 'e) marshaler \<Rightarrow> 'a Option \<Rightarrow> 'e + bytes" where
  "Option_MarshalJSON marshal o' =
     (if \<not> some o' then Inr ''null'' else marshal (val o'))"

text \<open>
  \<open>UnmarshalJSON\<close> has a pointer receiver: the result is the error and the receiver
  afterwards. The decoder writes into the field \<open>o.v\<close> itself.
\<close>

definition Option_UnmarshalJSON ::
  "'a \<Rightarrow> ('a, 'e) unmarshaler \<Rightarrow> bytes \<Rightarrow> 'a Option \<Rightarrow> 'e option \<times> 'a Option" where
  "Option_UnmarshalJSON zero unmarshal data o' =
     (if data = ''null'' then (None, o'\<lparr>some := False, val := zero\<rparr>)
      else
        (case unmarshal data (val o') of
           (Some err, v') \<Rightarrow> (Some err, o'\<lparr>val := v'\<rparr>)
         | (None, v') \<Rightarrow> (None, o'\<lparr>val := v', some := True\<rparr>)))"

section \<open>The library on options and slices of options\<close>

text \<open>\<open>json.Unmarshal(data, &t)\<close> for a fresh \<open>var t option.Option[T]\<close>.\<close>

definition json_Unmarshal_Option ::
  "'a \<Rightarrow> ('a, 'e) unmarshaler \<Rightarrow> 'e validator \<Rightarrow> bytes \<Rightarrow> 'e + 'a Option" where
  "json_Unmarshal_Option zero unmarshal valid data =
     (case valid data of
        Inl err \<Rightarrow> Inl err
      | Inr raw \<Rightarrow>
          (case Option_UnmarshalJSON zero unmarshal raw (None_opt zero) of
             (Some err, _) \<Rightarrow> Inl err
           | (None, t) \<Rightarrow> Inr t))"

text \<open>The elements of a slice target, each a fresh zero option decoded from its text.\<close>

fun unmarshal_elems ::
  "'a \<Rightarrow> ('a, 'e) unmarshaler \<Rightarrow> bytes list \<Rightarrow> 'e + 'a Option list" where
  "unmarshal_elems zero unmarshal [] = Inr []"
| "unmarshal_elems zero unmarshal (raw # raws) =
     (case Option_UnmarshalJSON zero unmarshal raw (None_opt zero) of
        (Some err, _) \<Rightarrow> Inl err
      | (None, t) \<Rightarrow>
          (case unmarshal_elems zero unmarshal raws of
             Inl err \<Rightarrow> Inl err
           | Inr ts \<Rightarrow> Inr (t # ts)))"

text \<open>\<open>json.Unmarshal(data, &t)\<close> for a fresh \<open>var t option.Options[T]\<close> (a nil slice).\<close>

definition json_Unmarshal_Options ::
  "'a \<Rightarrow> ('a, 'e) unmarshaler \<Rightarrow> 'e array_scanner \<Rightarrow> bytes \<Rightarrow> 'e + 'a Option slice" where
  "json_Unmarshal_Options zero unmarshal array data =
     (case array data of
        Inl err \<Rightarrow> Inl err
      | Inr None \<Rightarrow> Inr Nil_slice
      | Inr (Some raws) \<Rightarrow>
          (case unmarshal_elems zero unmarshal raws of
             Inl err \<Rightarrow> Inl err
           | Inr ts \<Rightarrow> Inr (Slice ts)))"

fun marshal_elems :: "('a, 'e) marshaler \<Rightarrow> 'a Option list \<Rightarrow> 'e + bytes list" where
  "marshal_elems marshal [] = Inr []"
| "marshal_elems marshal (x # xs) =
     (case Option_MarshalJSON marshal x of
        Inl err \<Rightarrow> Inl err
      | Inr b \<Rightarrow>
          (case marshal_elems marshal xs of
             Inl err \<Rightarrow> Inl err
           | Inr bs \<Rightarrow> Inr (b # bs)))"

fun join_comma :: "bytes list \<Rightarrow> bytes" where
  "join_comma [] = []"
| "join_comma [b] = b"
| "join_comma (b # bs) = b @ '','' @ join_comma bs"

definition array_text :: "bytes list \<Rightarrow> bytes" where
  "array_text bs = ''['' @ join_comma bs @ '']''"

text \<open>\<open>json.Marshal(v)\<close> for \<open>v\<close> of type \<open>option.Options[T]\<close>.\<close>

definition json_Marshal_Options :: "('a, 'e) marshaler \<Rightarrow> 'a Option slice \<Rightarrow> 'e + bytes" where
  "json_Marshal_Options marshal s =
     (case s of
        Nil_slice \<Rightarrow> Inr ''null''
      | Slice xs \<Rightarrow>
          (case marshal_elems marshal xs of
             Inl err \<Rightarrow> Inl err
           | Inr bs \<Rightarrow> Inr (array_text bs)))"

section \<open>Und: JSON (src/und.go)\<close>

definition Und_MarshalJSON :: "('a, 'e) marshaler \<Rightarrow> 'a Und \<Rightarrow> 'e + bytes" where
  "Und_MarshalJSON marshal u =
     (if Und_IsUndefined u \<or> Und_IsNull u then Inr ''null''
      else marshal (Option_Get (Option_Get (opt u))))"

text \<open>The result is the error and the receiver \<open>*u\<close> afterwards.\<close>

definition Und_UnmarshalJSON ::
  "'a \<Rightarrow> ('a, 'e) unmarshaler \<Rightarrow> bytes \<Rightarrow> 'a Und \<Rightarrow> 'e option \<times> 'a Und" where
  "Und_UnmarshalJSON zero unmarshal data u =
     (if data = ''null'' then (None, Null zero)
      else
        (case unmarshal data zero of
           (Some err, _) \<Rightarrow> (Some err, u)
         | (None, t) \<Rightarrow> (None, Defined t)))"

text \<open>
  Modelled from the spec: \<open>Und.Value\<close>, which the Elastic methods call
  (\<open>e.inner().Value()\<close>), is not in src/und.go; the spec gives \<open>get/value()\<close> as one
  accessor "that returns default T unless Defined", which is \<open>Get\<close>.
\<close>

definition Und_Value :: "'a \<Rightarrow> 'a Und \<Rightarrow> 'a" where
  "Und_Value zero u = Und_Get zero u"

section \<open>Elastic (src/elastic/methods.go and the second file of src/und.go)\<close>

text \<open>
  \<open>type Elastic[T any] und.Und[option.Options[T]]\<close>, with \<open>option.Options[T]\<close> a slice of
  options, whose zero value is the nil slice. src/elastic/methods.go is written over
  \<open>und.Und\<close> of src/und.go; the file that declares the type over \<open>sliceund.Und\<close> calls the
  same methods of it, and \<open>sliceund\<close> is not under src/, so the type is taken over
  \<open>und.Und\<close> throughout.
\<close>

type_synonym 'a Options = "'a Option slice"
type_synonym 'a Elastic = "'a Options Und"

definition inner :: "'a Elastic \<Rightarrow> 'a Options Und" where
  "inner e = e"

definition Elastic_Null :: "'a Elastic" where
  "Elastic_Null = Null Nil_slice"

definition Elastic_Undefined :: "'a Elastic" where
  "Elastic_Undefined = Undefined Nil_slice"

definition FromOptions :: "'a Options \<Rightarrow> 'a Elastic" where
  "FromOptions options = Defined options"

definition FromValue :: "'a \<Rightarrow> 'a Elastic" where
  "FromValue t = FromOptions (Slice [Some_opt t])"

definition Elastic_FromPointer :: "'a option \<Rightarrow> 'a Elastic" where
  "Elastic_FromPointer t = (case t of None \<Rightarrow> Elastic_Undefined | Some x \<Rightarrow> FromValue x)"

text \<open>
  \<open>opts := make(option.Options[T], len(ts)); for i, value := range ts { opts[i] =
  option.Some(value) }\<close>: the loop is a fold over the indexed elements.
\<close>

definition FromValues :: "'a \<Rightarrow> 'a slice \<Rightarrow> 'a Elastic" where
  "FromValues zero ts =
     FromOptions (Slice
       (fold (\<lambda>(i, value) opts. opts[i := Some_opt value])
          (enumerate 0 (elems ts))
          (elems (make_slice (None_opt zero) (len ts)))))"

definition Elastic_IsDefined :: "'a Elastic \<Rightarrow> bool" where
  "Elastic_IsDefined e = Und_IsDefined (inner e)"

definition Elastic_IsNull :: "'a Elastic \<Rightarrow> bool" where
  "Elastic_IsNull e = Und_IsNull (inner e)"

definition Elastic_IsUndefined :: "'a Elastic \<Rightarrow> bool" where
  "Elastic_IsUndefined e = Und_IsUndefined (inner e)"

definition Elastic_IsZero :: "'a Elastic \<Rightarrow> bool" where
  "Elastic_IsZero e = Elastic_IsUndefined e"

definition Elastic_Value :: "'a \<Rightarrow> 'a Elastic \<Rightarrow> 'a" where
  "Elastic_Value zero e =
     (if Elastic_IsDefined e then
        (case elems (Und_Value Nil_slice (inner e)) of
           [] \<Rightarrow> zero
         | x # _ \<Rightarrow> Option_Value x)
      else zero)"

text \<open>
  \<open>vs := make([]T, len(opts)); for i, opt := range opts { vs[i] = opt.Value() }\<close>
\<close>

definition Elastic_Values :: "'a \<Rightarrow> 'a Elastic \<Rightarrow> 'a slice" where
  "Elastic_Values zero e =
     (if \<not> Elastic_IsDefined e then Nil_slice
      else
        (let opts = Und_Value Nil_slice (inner e) in
         Slice
           (fold (\<lambda>(i, x) vs. vs[i := Option_Value x])
              (enumerate 0 (elems opts))
              (elems (make_slice zero (len opts))))))"

definition Elastic_Unwrap :: "'a Elastic \<Rightarrow> 'a Options Und" where
  "Elastic_Unwrap e = inner e"

text \<open>
  \<open>Map\<close>: the function handed to the inner \<open>Map\<close> returns its argument when it is not
  None; the three-index slice expression only caps the capacity.
\<close>

definition Elastic_Map :: "'a Elastic \<Rightarrow> ('a Options Und \<Rightarrow> 'a Options Und) \<Rightarrow> 'a Elastic" where
  "Elastic_Map e f =
     f (Und_Map (inner e)
          (\<lambda>oo.
             if \<not> Option_IsNone oo then oo
             else
               (let v = Option_Value oo in
                if Option_IsNone v then oo
                else (let vv = Option_Value v in Some_opt (Some_opt vv)))))"

text \<open>
  \<open>UnmarshalXML\<close>: \<open>decoded\<close> is what \<open>d.DecodeElement(&t, &start)\<close> gives for a fresh
  \<open>var t option.Options[T]\<close>, an error or the decoded slice. The result is the error
  and the receiver afterwards.
\<close>

definition Elastic_UnmarshalXML ::
  "'e + 'a Options \<Rightarrow> 'a Elastic \<Rightarrow> 'e option \<times> 'a Elastic" where
  "Elastic_UnmarshalXML decoded e =
     (case decoded of
        Inl err \<Rightarrow> (Some err, e)
      | Inr t \<Rightarrow>
          (if len (Und_Value Nil_slice (inner e)) = 0 then (None, FromOptions t)
           else
             (None,
              Elastic_Map e
                (\<lambda>u. Und_Map u
                   (\<lambda>oo. Option_Map oo
                      (\<lambda>v. Option_Map v (\<lambda>v. append_slice v t) Nil_slice)
                      (None_opt Nil_slice))))))"

text \<open>\<open>json.Marshal(u.inner())\<close> calls the method of \<open>Und\<close>, at the type of the slice.\<close>

definition Elastic_MarshalJSON :: "('a, 'e) marshaler \<Rightarrow> 'a Elastic \<Rightarrow> 'e + bytes" where
  "Elastic_MarshalJSON marshal e = Und_MarshalJSON (json_Marshal_Options marshal) (inner e)"

definition Elastic_UnmarshalJSON ::
  "'a \<Rightarrow> ('a, 'e) unmarshaler \<Rightarrow> 'e validator \<Rightarrow> 'e array_scanner \<Rightarrow> bytes \<Rightarrow>
   'a Elastic \<Rightarrow> 'e option \<times> 'a Elastic" where
  "Elastic_UnmarshalJSON zero unmarshal valid array data e =
     (if data = ''null'' then (None, Elastic_Null)
      else
        (let scalar =
               (case json_Unmarshal_Option zero unmarshal valid data of
                  Inl err \<Rightarrow> (Some err, e)
                | Inr t \<Rightarrow> (None, FromOptions (Slice [t])))
         in
           if length data \<ge> 2 \<and> data ! 0 = CHR ''['' then
             (case json_Unmarshal_Options zero unmarshal array data of
                Inr t \<Rightarrow> (None, FromOptions t)
              | Inl _ \<Rightarrow> scalar)
           else scalar))"

section \<open>An instance of the library, for evaluating the functions on examples\<close>

text \<open>
  The theorems below hold for every behaviour of the library. To run the functions on
  concrete inputs, the library's arguments are instantiated for the Go types \<open>bool\<close>,
  \<open>*bool\<close> and \<open>[]bool\<close>, on JSON texts without white space, strings or nested arrays.
  A type error carries the text that did not fit the target.
\<close>

datatype json_error = SyntaxError | UnmarshalTypeError bytes

definition marshal_bool :: "(bool, json_error) marshaler" where
  "marshal_bool b = Inr (if b then ''true'' else ''false'')"

text \<open>Decoding null into a \<open>bool\<close> leaves the target as it is and reports no error.\<close>

definition unmarshal_bool :: "(bool, json_error) unmarshaler" where
  "unmarshal_bool data x =
     (if data = ''true'' then (None, True)
      else if data = ''false'' then (None, False)
      else if data = ''null'' then (None, x)
      else (Some (UnmarshalTypeError data), x))"

text \<open>A \<open>*bool\<close>: nil encodes as null, and null decodes to nil.\<close>

definition marshal_ptr :: "(bool option, json_error) marshaler" where
  "marshal_ptr p = (case p of None \<Rightarrow> Inr ''null'' | Some b \<Rightarrow> marshal_bool b)"

definition unmarshal_ptr :: "(bool option, json_error) unmarshaler" where
  "unmarshal_ptr data x =
     (if data = ''null'' then (None, None)
      else
        (case unmarshal_bool data False of
           (None, b) \<Rightarrow> (None, Some b)
         | (Some err, _) \<Rightarrow> (Some err, x)))"

fun split_commas :: "bytes \<Rightarrow> bytes list" where
  "split_commas [] = [[]]"
| "split_commas (c # cs) =
     (if c = CHR '','' then [] # split_commas cs
      else (case split_commas cs of [] \<Rightarrow> [[c]] | b # bs \<Rightarrow> (c # b) # bs))"

definition flat_array :: "json_error array_scanner" where
  "flat_array data =
     (if data = ''null'' then Inr None
      else if data \<noteq> [] \<and> hd data = CHR ''['' then
        (if length data \<ge> 2 \<and> last data = CHR '']'' then
           (let body = butlast (tl data) in
            Inr (Some (if body = [] then [] else split_commas body)))
         else Inl SyntaxError)
      else Inl (UnmarshalTypeError data))"

definition flat_valid :: "json_error validator" where
  "flat_valid data = (if data = [] then Inl SyntaxError else Inr data)"

text \<open>
  A \<open>[]bool\<close> decoded into a nil target: an element of the wrong type is reported, the
  first such error is kept, and the decoder goes on, so that the target holds the
  elements decoded so far and after it when the error is returned.
\<close>

fun decode_bools :: "bytes list \<Rightarrow> json_error option \<times> bool list" where
  "decode_bools [] = (None, [])"
| "decode_bools (raw # raws) =
     (case (unmarshal_bool raw False, decode_bools raws) of
        ((err1, b), (err2, bs)) \<Rightarrow>
          ((case err1 of Some err \<Rightarrow> Some err | None \<Rightarrow> err2), b # bs))"

definition unmarshal_bools :: "(bool slice, json_error) unmarshaler" where
  "unmarshal_bools data x =
     (case flat_array data of
        Inl err \<Rightarrow> (Some err, x)
      | Inr None \<Rightarrow> (None, Nil_slice)
      | Inr (Some raws) \<Rightarrow>
          (case decode_bools raws of (err, bs) \<Rightarrow> (err, Slice bs)))"

section \<open>The state predicates\<close>

lemmas option_defs =
  Some_opt_def None_opt_def Option_IsSome_def Option_IsNone_def Option_IsZero_def
  Option_Value_def Option_Get_def Option_Pointer_def MapOption_def Option_Map_def

lemmas und_defs =
  Defined_def Null_def Undefined_def FromPointer_def FromOption_def Und_IsUndefined_def
  Und_IsNull_def Und_IsDefined_def Und_IsZero_def Und_Get_def Und_Pointer_def
  Und_Unwrap_def Und_Map_def

lemma states_true_any: "states_true u = 1"
  by (simp add: states_true_def und_defs option_defs)

text \<open>
  C5. Exactly one of \<open>IsUndefined\<close>, \<open>IsNull\<close>, \<open>IsDefined\<close> holds of every value built by
  \<open>Defined\<close>, \<open>Null\<close>, \<open>Undefined\<close> (the zero value) and \<open>FromPointer\<close>, each constructor in
  the state its name says, and \<open>IsZero\<close> agrees with \<open>IsUndefined\<close>. The count and the
  agreement hold of every value of the struct type, also one built by \<open>FromOption\<close>.
\<close>

theorem und_exactly_one_state:
  "states_true (u :: 'a Und) = 1
   \<and> Und_IsZero u = Und_IsUndefined u
   \<and> states_true (Defined t) = 1 \<and> Und_IsDefined (Defined t)
   \<and> states_true (Null zero) = 1 \<and> Und_IsNull (Null zero)
   \<and> states_true (Undefined zero) = 1 \<and> Und_IsUndefined (Undefined zero)
   \<and> states_true (FromPointer zero p) = 1
   \<and> Und_IsUndefined (FromPointer zero None)
   \<and> Und_IsDefined (FromPointer zero (Some t))
   \<and> Und_IsZero (Undefined zero) \<and> \<not> Und_IsZero (Null zero) \<and> \<not> Und_IsZero (Defined t)"
  by (simp add: states_true_any) (simp add: und_defs option_defs)

theorem und_exactly_one_state_witness:
  "states_true (FromPointer (0::int) (Some 7)) = 1
   \<and> Und_IsDefined (FromPointer (0::int) (Some 7))
   \<and> \<not> Und_IsNull (FromPointer (0::int) (Some 7))
   \<and> \<not> Und_IsUndefined (FromPointer (0::int) (Some 7))
   \<and> \<not> Und_IsZero (FromPointer (0::int) (Some 7))"
  using und_exactly_one_state [of "FromPointer (0::int) (Some 7)" "7::int" "0::int" "Some (7::int)"]
  by (simp add: und_defs option_defs)

section \<open>The loops as maps\<close>

text \<open>
  A loop \<open>for i, x := range xs { vs[i] = f(x) }\<close> over a slice \<open>vs\<close> made with the length
  of \<open>xs\<close> leaves \<open>f\<close> of each element at its index.
\<close>

lemma fold_assign_aux:
  "length acc = k + length xs \<Longrightarrow>
   fold (\<lambda>(i, x) vs. vs[i := f x]) (enumerate k xs) acc = take k acc @ map f xs"
proof (induction xs arbitrary: k acc)
  case Nil
  then show ?case by simp
next
  case (Cons x xs)
  have "fold (\<lambda>(i, x) vs. vs[i := f x]) (enumerate k (x # xs)) acc
        = fold (\<lambda>(i, x) vs. vs[i := f x]) (enumerate (Suc k) xs) (acc[k := f x])"
    by simp
  also have "\<dots> = take (Suc k) (acc[k := f x]) @ map f xs"
    using Cons.prems by (intro Cons.IH) simp
  also have "take (Suc k) (acc[k := f x]) = take k acc @ [f x]"
    using Cons.prems by (simp add: take_Suc_conv_app_nth)
  finally show ?case by simp
qed

lemma fold_assign:
  "fold (\<lambda>(i, x) vs. vs[i := f x]) (enumerate 0 xs) (replicate (length xs) z) = map f xs"
  using fold_assign_aux [of "replicate (length xs) z" 0 xs f] by simp

lemma FromValues_eq: "FromValues zero ts = FromOptions (Slice (map Some_opt (elems ts)))"
  by (simp add: FromValues_def make_slice_def len_def fold_assign)

lemma Elastic_Values_eq:
  "Elastic_Values zero e =
     (if Elastic_IsDefined e then Slice (map Option_Value (elems (val (val (opt e))))) else Nil_slice)"
  by (simp add: Elastic_Values_def Let_def make_slice_def len_def fold_assign
      Und_Value_def Und_Get_def Elastic_IsDefined_def inner_def Option_Get_def Option_Value_def)

lemmas elastic_defs =
  inner_def Elastic_Null_def Elastic_Undefined_def FromOptions_def FromValue_def
  Elastic_FromPointer_def Elastic_IsDefined_def Elastic_IsNull_def Elastic_IsUndefined_def
  Elastic_IsZero_def Und_Value_def Elastic_Unwrap_def

lemmas example_defs =
  marshal_bool_def unmarshal_bool_def marshal_ptr_def unmarshal_ptr_def flat_array_def
  flat_valid_def unmarshal_bools_def

section \<open>Equality of options\<close>

text \<open>
  C2. \<open>Option.Equal\<close> resolves in this order: two None values are equal; a None and a Some
  are not; for two Some values, an \<open>Equal\<close> method of \<open>T\<close> decides, else one of \<open>*T\<close>, and
  only when neither exists the values are compared with \<open>==\<close>, whose panic on an
  uncomparable type is the result. A method takes precedence over the structure: the
  witness has the values 1 and 31 equal under a method that compares modulo 30.
\<close>

theorem option_equal_resolution:
  "(\<not> some a \<and> \<not> some b \<longrightarrow> Option_Equal assertT assertPtr eqop a b = Inr True)
   \<and> (some a \<noteq> some b \<longrightarrow> Option_Equal assertT assertPtr eqop a b = Inr False)
   \<and> (some a \<and> some b \<and> assertT (val a) = Some eq \<longrightarrow>
        Option_Equal assertT assertPtr eqop a b = eq (val b))
   \<and> (some a \<and> some b \<and> assertT (val a) = None \<and> assertPtr (val a) = Some eq \<longrightarrow>
        Option_Equal assertT assertPtr eqop a b = eq (val b))
   \<and> (some a \<and> some b \<and> assertT (val a) = None \<and> assertPtr (val a) = None \<longrightarrow>
        Option_Equal assertT assertPtr eqop a b = eqop (val a) (val b))"
  by (auto simp: Option_Equal_def equal_go_def)

theorem option_equal_resolution_witness:
  "Option_Equal (\<lambda>t. Some (\<lambda>u. Inr (t mod 30 = u mod 30))) (\<lambda>t. None) (\<lambda>t u. Inr (t = u))
     (Some_opt (1::int)) (Some_opt 31) = Inr True
   \<and> (1::int) \<noteq> 31
   \<and> Option_Equal (\<lambda>t. None) (\<lambda>t. Some (\<lambda>u. Inr (t mod 30 = u mod 30))) (\<lambda>t u. Inr (t = u))
     (Some_opt (1::int)) (Some_opt 31) = Inr True
   \<and> Option_Equal (\<lambda>t. None) (\<lambda>t. None) (\<lambda>t u. Inl Uncomparable)
     (Some_opt [''foo'']) (Some_opt [''foo'']) = Inl Uncomparable
   \<and> Option_Equal (\<lambda>t. None) (\<lambda>t. None) (\<lambda>t u. Inl Uncomparable)
     (None_opt []) (None_opt ([] :: string list)) = Inr True
   \<and> Option_Equal (\<lambda>t. None) (\<lambda>t. None) (\<lambda>t u. Inl Uncomparable)
     (Some_opt [''foo'']) (None_opt []) = Inr False"
  using
    option_equal_resolution [of "Some_opt (1::int)" "Some_opt 31"
      "\<lambda>t. Some (\<lambda>u. Inr (t mod 30 = u mod 30))" "\<lambda>t. None" "\<lambda>t u. Inr (t = u)"
      "\<lambda>u. Inr ((1::int) mod 30 = u mod 30)"]
    option_equal_resolution [of "Some_opt (1::int)" "Some_opt 31"
      "\<lambda>t. None" "\<lambda>t. Some (\<lambda>u. Inr (t mod 30 = u mod 30))" "\<lambda>t u. Inr (t = u)"
      "\<lambda>u. Inr ((1::int) mod 30 = u mod 30)"]
    option_equal_resolution [of "Some_opt [''foo'']" "Some_opt [''foo'']"
      "\<lambda>t. None" "\<lambda>t. None" "\<lambda>t u. Inl Uncomparable"]
    option_equal_resolution [of "None_opt []" "None_opt ([] :: string list)"
      "\<lambda>t. None" "\<lambda>t. None" "\<lambda>t u. Inl Uncomparable"]
    option_equal_resolution [of "Some_opt [''foo'']" "None_opt []"
      "\<lambda>t. None" "\<lambda>t. None" "\<lambda>t u. Inl Uncomparable"]
  by (simp add: Some_opt_def None_opt_def)

section \<open>Decoding JSON into Und\<close>

text \<open>
  C3. \<open>Und.UnmarshalJSON\<close> gives Null on the literal null; on any other input it gives
  \<open>Defined t\<close> when the decoder of \<open>T\<close> succeeds with \<open>t\<close>, and returns the decoder's error
  when it fails; a decode that succeeds never leaves the receiver undefined.
\<close>

theorem und_unmarshal_outcomes:
  "(data = ''null'' \<longrightarrow> Und_UnmarshalJSON zero unmarshal data u = (None, Null zero))
   \<and> (data \<noteq> ''null'' \<and> unmarshal data zero = (None, t) \<longrightarrow>
        Und_UnmarshalJSON zero unmarshal data u = (None, Defined t))
   \<and> (data \<noteq> ''null'' \<and> unmarshal data zero = (Some err, t) \<longrightarrow>
        Und_UnmarshalJSON zero unmarshal data u = (Some err, u))
   \<and> (Und_UnmarshalJSON zero unmarshal data u = (None, u') \<longrightarrow>
        \<not> Und_IsUndefined u' \<and> (Und_IsNull u' \<or> Und_IsDefined u'))"
  by (auto simp: Und_UnmarshalJSON_def und_defs option_defs split: prod.splits option.splits)

theorem und_unmarshal_outcomes_witness:
  "Und_UnmarshalJSON False unmarshal_bool ''null'' (Undefined False) = (None, Null False)
   \<and> Und_UnmarshalJSON False unmarshal_bool ''true'' (Undefined False) = (None, Defined True)
   \<and> Und_UnmarshalJSON False unmarshal_bool ''1'' (Undefined False)
       = (Some (UnmarshalTypeError ''1''), Undefined False)
   \<and> \<not> Und_IsUndefined (Defined True) \<and> Und_IsUndefined (Undefined False)"
  using
    und_unmarshal_outcomes [of "''null''" False unmarshal_bool "Undefined False" True
      "UnmarshalTypeError ''1''" "Null False"]
    und_unmarshal_outcomes [of "''true''" False unmarshal_bool "Undefined False" True
      "UnmarshalTypeError ''1''" "Defined True"]
    und_unmarshal_outcomes [of "''1''" False unmarshal_bool "Undefined False" False
      "UnmarshalTypeError ''1''" "Defined True"]
  by (simp add: unmarshal_bool_def und_defs option_defs)

text \<open>
  C9. When \<open>Und.UnmarshalJSON\<close> or \<open>Elastic.UnmarshalJSON\<close> returns an error, the receiver
  is what it was: both decode into a local variable, which may have been written to
  when the library reports the error, and assign the receiver on success only.
\<close>

theorem unmarshal_failure_keeps_receiver:
  "(Und_UnmarshalJSON zero unmarshal data u = (Some err, u') \<longrightarrow> u' = u)
   \<and> (Elastic_UnmarshalJSON zero' unmarshal' valid array data' e = (Some err', e')
        \<longrightarrow> e' = e)"
  by (auto simp: Und_UnmarshalJSON_def Elastic_UnmarshalJSON_def Let_def
      split: prod.splits option.splits sum.splits if_splits)

theorem unmarshal_failure_keeps_receiver_witness:
  "Und_UnmarshalJSON Nil_slice unmarshal_bools ''[true,1]'' (Defined (Slice [False]))
     = (Some (UnmarshalTypeError ''1''), Defined (Slice [False]))
   \<and> unmarshal_bools ''[true,1]'' Nil_slice = (Some (UnmarshalTypeError ''1''), Slice [True, False])
   \<and> Elastic_UnmarshalJSON False unmarshal_bool flat_valid flat_array ''[true,1]'' (FromValue False)
     = (Some (UnmarshalTypeError ''[true,1]''), FromValue False)"
proof -
  have 3: "unmarshal_bools ''[true,1]'' Nil_slice
      = (Some (UnmarshalTypeError ''1''), Slice [True, False])"
    by (simp add: example_defs)
  have 1: "fst (Und_UnmarshalJSON Nil_slice unmarshal_bools ''[true,1]'' (Defined (Slice [False])))
      = Some (UnmarshalTypeError ''1'')"
    by (simp add: Und_UnmarshalJSON_def 3)
  have 2: "fst (Elastic_UnmarshalJSON False unmarshal_bool flat_valid flat_array ''[true,1]''
        (FromValue False)) = Some (UnmarshalTypeError ''[true,1]'')"
    by (simp add: Elastic_UnmarshalJSON_def json_Unmarshal_Options_def json_Unmarshal_Option_def
        Option_UnmarshalJSON_def example_defs None_opt_def)
  have a: "snd (Und_UnmarshalJSON Nil_slice unmarshal_bools ''[true,1]'' (Defined (Slice [False])))
      = Defined (Slice [False])"
    by (rule unmarshal_failure_keeps_receiver
          [THEN conjunct1, rule_format, of _ _ _ _ "UnmarshalTypeError ''1''"])
       (simp add: 1 [symmetric])
  have b: "snd (Elastic_UnmarshalJSON False unmarshal_bool flat_valid flat_array ''[true,1]''
        (FromValue False)) = FromValue False"
    by (rule unmarshal_failure_keeps_receiver
          [THEN conjunct2, rule_format, of _ _ _ _ _ _ "UnmarshalTypeError ''[true,1]''"])
       (simp add: 2 [symmetric])
  show ?thesis
    using 1 2 3 a b by (simp add: prod_eq_iff)
qed

section \<open>Decoding JSON into Elastic\<close>

lemmas json_defs =
  Option_MarshalJSON_def Option_UnmarshalJSON_def json_Unmarshal_Option_def
  json_Unmarshal_Options_def json_Marshal_Options_def array_text_def
  Und_MarshalJSON_def Und_UnmarshalJSON_def Elastic_MarshalJSON_def Elastic_UnmarshalJSON_def

text \<open>
  C1. \<open>Elastic.UnmarshalJSON\<close> resolves scalar against array in this order. The literal
  null gives Null. Else, when the input opens an array (it has at least two bytes and
  the first is an opening bracket), the whole input is decoded as a slice of options,
  and success gives Defined with that slice. When that attempt fails, or was not made,
  the whole input is decoded as one option, and success gives Defined with a slice of
  that one element. When this fails too, its error is the one returned, not the array
  attempt's.
\<close>

theorem elastic_unmarshal_order:
  "(data = ''null'' \<longrightarrow>
      Elastic_UnmarshalJSON zero unmarshal valid array data e = (None, Elastic_Null))
   \<and> (data \<noteq> ''null'' \<and> length data \<ge> 2 \<and> data ! 0 = CHR ''[''
        \<and> json_Unmarshal_Options zero unmarshal array data = Inr ts \<longrightarrow>
      Elastic_UnmarshalJSON zero unmarshal valid array data e = (None, FromOptions ts))
   \<and> (data \<noteq> ''null''
        \<and> (length data \<ge> 2 \<and> data ! 0 = CHR ''[''
             \<longrightarrow> json_Unmarshal_Options zero unmarshal array data = Inl err_array)
        \<and> json_Unmarshal_Option zero unmarshal valid data = Inr t \<longrightarrow>
      Elastic_UnmarshalJSON zero unmarshal valid array data e = (None, FromOptions (Slice [t])))
   \<and> (data \<noteq> ''null''
        \<and> (length data \<ge> 2 \<and> data ! 0 = CHR ''[''
             \<longrightarrow> json_Unmarshal_Options zero unmarshal array data = Inl err_array)
        \<and> json_Unmarshal_Option zero unmarshal valid data = Inl err_scalar \<longrightarrow>
      Elastic_UnmarshalJSON zero unmarshal valid array data e = (Some err_scalar, e))"
  by (auto simp: Elastic_UnmarshalJSON_def Let_def split: sum.splits)

theorem elastic_unmarshal_order_witness:
  "Elastic_UnmarshalJSON False unmarshal_bool flat_valid flat_array ''null'' Elastic_Undefined
     = (None, Elastic_Null)
   \<and> Elastic_UnmarshalJSON False unmarshal_bool flat_valid flat_array ''[true,null,false]''
       Elastic_Undefined
     = (None, FromOptions (Slice [Some_opt True, None_opt False, Some_opt False]))
   \<and> json_Unmarshal_Options Nil_slice unmarshal_bools flat_array ''[true,false]''
     = Inl (UnmarshalTypeError ''true'')
   \<and> Elastic_UnmarshalJSON Nil_slice unmarshal_bools flat_valid flat_array ''[true,false]''
       Elastic_Undefined
     = (None, FromOptions (Slice [Some_opt (Slice [True, False])]))
   \<and> Elastic_UnmarshalJSON False unmarshal_bool flat_valid flat_array ''true'' Elastic_Undefined
     = (None, FromOptions (Slice [Some_opt True]))
   \<and> json_Unmarshal_Options False unmarshal_bool flat_array ''[true,1]''
     = Inl (UnmarshalTypeError ''1'')
   \<and> Elastic_UnmarshalJSON False unmarshal_bool flat_valid flat_array ''[true,1]''
       Elastic_Undefined
     = (Some (UnmarshalTypeError ''[true,1]''), Elastic_Undefined)"
proof -
  have a1: "json_Unmarshal_Options False unmarshal_bool flat_array ''[true,null,false]''
      = Inr (Slice [Some_opt True, None_opt False, Some_opt False])"
    by (simp add: json_defs example_defs option_defs)
  have a2: "json_Unmarshal_Options Nil_slice unmarshal_bools flat_array ''[true,false]''
      = Inl (UnmarshalTypeError ''true'')"
    by (simp add: json_defs example_defs option_defs)
  have s2: "json_Unmarshal_Option Nil_slice unmarshal_bools flat_valid ''[true,false]''
      = Inr (Some_opt (Slice [True, False]))"
    by (simp add: json_defs example_defs option_defs)
  have s3: "json_Unmarshal_Option False unmarshal_bool flat_valid ''true'' = Inr (Some_opt True)"
    by (simp add: json_defs example_defs option_defs)
  have a4: "json_Unmarshal_Options False unmarshal_bool flat_array ''[true,1]''
      = Inl (UnmarshalTypeError ''1'')"
    by (simp add: json_defs example_defs option_defs)
  have s4: "json_Unmarshal_Option False unmarshal_bool flat_valid ''[true,1]''
      = Inl (UnmarshalTypeError ''[true,1]'')"
    by (simp add: json_defs example_defs option_defs)
  show ?thesis
    using a1 a2 s2 s3 a4 s4
      elastic_unmarshal_order [where data = "''null''" and zero = False
        and unmarshal = unmarshal_bool and valid = flat_valid and array = flat_array
        and e = Elastic_Undefined]
      elastic_unmarshal_order [where data = "''[true,null,false]''" and zero = False
        and unmarshal = unmarshal_bool and valid = flat_valid and array = flat_array
        and e = Elastic_Undefined
        and ts = "Slice [Some_opt True, None_opt False, Some_opt False]"]
      elastic_unmarshal_order [where data = "''[true,false]''" and zero = Nil_slice
        and unmarshal = unmarshal_bools and valid = flat_valid and array = flat_array
        and e = Elastic_Undefined and err_array = "UnmarshalTypeError ''true''"
        and t = "Some_opt (Slice [True, False])"]
      elastic_unmarshal_order [where data = "''true''" and zero = False
        and unmarshal = unmarshal_bool and valid = flat_valid and array = flat_array
        and e = Elastic_Undefined and t = "Some_opt True"]
      elastic_unmarshal_order [where data = "''[true,1]''" and zero = False
        and unmarshal = unmarshal_bool and valid = flat_valid and array = flat_array
        and e = Elastic_Undefined and err_array = "UnmarshalTypeError ''1''"
        and err_scalar = "UnmarshalTypeError ''[true,1]''"]
    by simp
qed

section \<open>Encoding to JSON\<close>

lemma marshal_elems_tokens:
  "\<forall>x\<in>set xs. some x \<longrightarrow> marshal (val x) = Inr (enc (val x)) \<Longrightarrow>
   marshal_elems marshal xs = Inr (map (\<lambda>x. if some x then enc (val x) else ''null'') xs)"
  by (induction xs) (simp_all add: Option_MarshalJSON_def)

text \<open>
  C6 (amended). \<open>Option.MarshalJSON\<close> returns the literal null for None and the encoding
  of the value for Some. \<open>Und.MarshalJSON\<close> returns null for Undefined and for Null and
  the encoding of the held value for Defined. \<open>Elastic.MarshalJSON\<close> returns null for
  Undefined and for Null; for a Defined value whose backing slice is not nil it returns
  an array of one token per element, null for a None element and the value's encoding
  for a Some element (when those encodings succeed); for a Defined value whose backing
  slice is nil it returns null, not an array.
\<close>

theorem marshal_null_or_value:
  "(\<not> some x \<longrightarrow> Option_MarshalJSON marshal x = Inr ''null'')
   \<and> (some x \<longrightarrow> Option_MarshalJSON marshal x = marshal (val x))
   \<and> (Und_IsUndefined u \<or> Und_IsNull u \<longrightarrow> Und_MarshalJSON marshal u = Inr ''null'')
   \<and> (Und_IsDefined u \<longrightarrow> Und_MarshalJSON marshal u = marshal (Und_Get zero u))
   \<and> (Elastic_IsUndefined e \<or> Elastic_IsNull e \<longrightarrow> Elastic_MarshalJSON marshal e = Inr ''null'')
   \<and> (Elastic_IsDefined e \<and> Und_Value Nil_slice (inner e) = Slice xs
        \<and> (\<forall>x\<in>set xs. some x \<longrightarrow> marshal (val x) = Inr (enc (val x))) \<longrightarrow>
      Elastic_MarshalJSON marshal e
        = Inr (array_text (map (\<lambda>x. if some x then enc (val x) else ''null'') xs)))
   \<and> (Elastic_IsDefined e \<and> Und_Value Nil_slice (inner e) = Nil_slice \<longrightarrow>
      Elastic_MarshalJSON marshal e = Inr ''null'')"
proof -
  have opt: "(\<not> some x \<longrightarrow> Option_MarshalJSON marshal x = Inr ''null'')
      \<and> (some x \<longrightarrow> Option_MarshalJSON marshal x = marshal (val x))"
    by (simp add: Option_MarshalJSON_def)
  have und: "(Und_IsUndefined u \<or> Und_IsNull u \<longrightarrow> Und_MarshalJSON marshal u = Inr ''null'')
      \<and> (Und_IsDefined u \<longrightarrow> Und_MarshalJSON marshal u = marshal (Und_Get zero u))"
    by (auto simp: Und_MarshalJSON_def und_defs option_defs)
  have ela_null: "Elastic_IsUndefined e \<or> Elastic_IsNull e \<longrightarrow>
      Elastic_MarshalJSON marshal e = Inr ''null''"
    by (auto simp: Elastic_MarshalJSON_def Und_MarshalJSON_def elastic_defs)
  have ela_def: "Elastic_MarshalJSON marshal e
        = json_Marshal_Options marshal (Und_Value Nil_slice (inner e))"
    if "Elastic_IsDefined e"
    using that
    by (auto simp: Elastic_MarshalJSON_def Und_MarshalJSON_def elastic_defs und_defs option_defs)
  have ela_arr: "Elastic_IsDefined e \<and> Und_Value Nil_slice (inner e) = Slice xs
        \<and> (\<forall>x\<in>set xs. some x \<longrightarrow> marshal (val x) = Inr (enc (val x))) \<longrightarrow>
      Elastic_MarshalJSON marshal e
        = Inr (array_text (map (\<lambda>x. if some x then enc (val x) else ''null'') xs))"
    using marshal_elems_tokens [of xs marshal enc]
    by (auto simp: ela_def json_Marshal_Options_def)
  have ela_nil: "Elastic_IsDefined e \<and> Und_Value Nil_slice (inner e) = Nil_slice \<longrightarrow>
      Elastic_MarshalJSON marshal e = Inr ''null''"
    by (simp add: ela_def json_Marshal_Options_def)
  show ?thesis
    using opt und ela_null ela_arr ela_nil by blast
qed

theorem marshal_null_or_value_witness:
  "Option_MarshalJSON marshal_bool (None_opt False) = Inr ''null''
   \<and> Option_MarshalJSON marshal_bool (Some_opt True) = Inr ''true''
   \<and> Und_MarshalJSON marshal_bool (Undefined False) = Inr ''null''
   \<and> Und_MarshalJSON marshal_bool (Null False) = Inr ''null''
   \<and> Und_MarshalJSON marshal_bool (Defined False) = Inr ''false''
   \<and> Elastic_MarshalJSON marshal_bool Elastic_Undefined = Inr ''null''
   \<and> Elastic_MarshalJSON marshal_bool Elastic_Null = Inr ''null''
   \<and> Elastic_MarshalJSON marshal_bool (FromOptions (Slice [Some_opt True, None_opt False]))
       = Inr ''[true,null]''
   \<and> Elastic_MarshalJSON marshal_bool (FromOptions (Slice [Some_opt True])) = Inr ''[true]''
   \<and> Elastic_MarshalJSON marshal_bool (FromOptions (Slice [])) = Inr ''[]''
   \<and> Elastic_MarshalJSON marshal_bool (FromOptions Nil_slice) = Inr ''null''"
  using
    marshal_null_or_value [where x = "None_opt False" and marshal = marshal_bool
      and u = "Undefined False" and zero = False and e = Elastic_Undefined
      and xs = "[]" and enc = "\<lambda>b. if b then ''true'' else ''false''"]
    marshal_null_or_value [where x = "Some_opt True" and marshal = marshal_bool
      and u = "Null False" and zero = False and e = Elastic_Null
      and xs = "[]" and enc = "\<lambda>b. if b then ''true'' else ''false''"]
    marshal_null_or_value [where x = "Some_opt True" and marshal = marshal_bool
      and u = "Defined False" and zero = False
      and e = "FromOptions (Slice [Some_opt True, None_opt False])"
      and xs = "[Some_opt True, None_opt False]"
      and enc = "\<lambda>b. if b then ''true'' else ''false''"]
    marshal_null_or_value [where x = "Some_opt True" and marshal = marshal_bool
      and u = "Defined False" and zero = False
      and e = "FromOptions (Slice [Some_opt True])"
      and xs = "[Some_opt True]"
      and enc = "\<lambda>b. if b then ''true'' else ''false''"]
    marshal_null_or_value [where x = "Some_opt True" and marshal = marshal_bool
      and u = "Defined False" and zero = False
      and e = "FromOptions (Slice [])"
      and xs = "[]"
      and enc = "\<lambda>b. if b then ''true'' else ''false''"]
    marshal_null_or_value [where x = "Some_opt True" and marshal = marshal_bool
      and u = "Defined False" and zero = False
      and e = "FromOptions Nil_slice"
      and xs = "[]"
      and enc = "\<lambda>b. if b then ''true'' else ''false''"]
  by (simp add: elastic_defs und_defs option_defs marshal_bool_def array_text_def)

text \<open>
  The claim as stated, an array for every Defined Elastic, fails on \<open>FromOptions(nil)\<close>:
  the value is Defined and its encoding is the literal null, since the library encodes
  a nil slice as null.
\<close>

theorem elastic_marshal_nil_counterexample:
  "Elastic_IsDefined (FromOptions (Nil_slice :: bool Options))
   \<and> Elastic_MarshalJSON marshal_bool (FromOptions Nil_slice) = Inr ''null''
   \<and> ''null'' ! 0 \<noteq> CHR ''[''"
  by (simp add: Elastic_MarshalJSON_def Und_MarshalJSON_def json_Marshal_Options_def
      elastic_defs und_defs option_defs)

section \<open>Decoding XML into Elastic\<close>

lemma defined_value:
  "Und_Value zero u = v \<Longrightarrow> v \<noteq> zero \<Longrightarrow> u = Defined v"
  by (cases u, rename_tac oo, case_tac oo, rename_tac b w, case_tac w)
     (auto simp: und_defs option_defs Und_Value_def split: if_splits)

text \<open>
  C7. \<open>Elastic.UnmarshalXML\<close> on a receiver that holds one or more elements gives a
  Defined value holding those elements followed by the newly decoded ones; on a
  receiver that holds no element (Undefined, Null, or Defined and empty) it gives
  \<open>FromOptions\<close> of the newly decoded slice, a Defined value with exactly the new
  elements. When the decoder fails, the error is returned and the receiver is kept.
\<close>

theorem elastic_unmarshal_xml_appends:
  fixes e :: "'a Elastic" and err :: 'e
  shows
  "(Und_Value Nil_slice (inner e) = Slice (x # xs) \<longrightarrow>
      Elastic_UnmarshalXML (Inr t :: 'e + 'a Options) e
        = (None, FromOptions (Slice (x # xs @ elems t))))
   \<and> (len (Und_Value Nil_slice (inner e)) = 0 \<longrightarrow>
      Elastic_UnmarshalXML (Inr t :: 'e + 'a Options) e = (None, FromOptions t))
   \<and> Elastic_UnmarshalXML (Inl err) e = (Some err, e)"
proof -
  have "Elastic_UnmarshalXML (Inr t :: 'e + 'a Options) e
      = (None, FromOptions (Slice (x # xs @ elems t)))"
    if "Und_Value Nil_slice (inner e) = Slice (x # xs)"
  proof -
    have "e = Defined (Slice (x # xs))"
      using that defined_value [of Nil_slice e "Slice (x # xs)"] by (simp add: inner_def)
    then show ?thesis
      by (simp add: Elastic_UnmarshalXML_def Elastic_Map_def elastic_defs und_defs option_defs
          len_def append_slice_def)
  qed
  moreover have "Elastic_UnmarshalXML (Inr t :: 'e + 'a Options) e = (None, FromOptions t)"
    if "len (Und_Value Nil_slice (inner e)) = 0"
    using that by (simp add: Elastic_UnmarshalXML_def)
  moreover have "Elastic_UnmarshalXML (Inl err) e = (Some err, e)"
    by (simp add: Elastic_UnmarshalXML_def)
  ultimately show ?thesis by blast
qed

theorem elastic_unmarshal_xml_appends_witness:
  "Elastic_UnmarshalXML (Inr (Slice [None_opt False, Some_opt False]) :: json_error + bool Options)
       (FromValue True)
     = (None, FromOptions (Slice [Some_opt True, None_opt False, Some_opt False]))
   \<and> Elastic_UnmarshalXML (Inr (Slice [Some_opt False]) :: json_error + bool Options)
       Elastic_Null
     = (None, FromOptions (Slice [Some_opt False]))
   \<and> Elastic_UnmarshalXML (Inr (Slice [Some_opt False]) :: json_error + bool Options)
       (FromOptions (Slice []))
     = (None, FromOptions (Slice [Some_opt False]))"
  using
    elastic_unmarshal_xml_appends [where e = "FromValue True" and x = "Some_opt True"
      and xs = "[]" and t = "Slice [None_opt False, Some_opt False]" and err = SyntaxError]
    elastic_unmarshal_xml_appends [where e = Elastic_Null and x = "Some_opt True"
      and xs = "[]" and t = "Slice [Some_opt False]" and err = SyntaxError]
    elastic_unmarshal_xml_appends [where e = "FromOptions (Slice [])" and x = "Some_opt True"
      and xs = "[]" and t = "Slice [Some_opt False]" and err = SyntaxError]
  by (simp add: elastic_defs und_defs option_defs len_def)

end
